theory Spec2Isabelle
  imports Complex_Main "HOL-Library.AList"
begin

section \<open>The order book and the trade simulator of trade\_simulator.py\<close>

text \<open>
  Prices, sizes and quantities are Python floats in the source; the specification's data
  model calls them real numbers, and they are embedded as \<^typ>\<open>real\<close> with exact
  arithmetic. The rounding of IEEE-754 doubles is outside the embedding, so properties
  that hold in exact arithmetic and are lost to rounding (the executed and the remaining
  quantity adding up to the requested one, a buy slippage that is never negative) are
  not asserted here. A Python \<open>dict\<close> keeps its items in insertion order, assignment to a key
  that is present overwrites in place and assignment to a new key appends; this is an
  association list handled with \<^const>\<open>AList.update\<close> and \<^const>\<open>AList.delete\<close>.
  The feed delivers prices and sizes as strings; the embedding starts after the two
  \<open>float(...)\<close> conversions, on the parsed numbers.
\<close>

subsection \<open>OrderBook\<close>

type_synonym level = "real \<times> real"

type_synonym book_side = "level list"

record order_book =
  bids :: book_side
  asks :: book_side

datatype side = Bids | Asks

text \<open>\<open>OrderBook.__init__\<close>: both sides start empty.\<close>

definition init_book :: order_book where
  "init_book = \<lparr>bids = [], asks = []\<rparr>"

text \<open>
  The body of the inner loop of \<open>OrderBook.update\<close> on one side's dictionary: size 0
  deletes the price if it is a key, any other size is stored under the price.
\<close>

definition set_level :: "real \<Rightarrow> real \<Rightarrow> book_side \<Rightarrow> book_side" where
  "set_level price size_v book_side =
     (if size_v = 0
      then (if price \<in> fst ` set book_side then AList.delete price book_side else book_side)
      else AList.update price size_v book_side)"

text \<open>One (side, price, size) update: the dictionary is chosen by the side's name.\<close>

definition apply_level :: "side \<Rightarrow> real \<Rightarrow> real \<Rightarrow> order_book \<Rightarrow> order_book" where
  "apply_level sd price size_v ob =
     (case sd of
        Bids \<Rightarrow> ob\<lparr>bids := set_level price size_v (bids ob)\<rparr>
      | Asks \<Rightarrow> ob\<lparr>asks := set_level price size_v (asks ob)\<rparr>)"

text \<open>The dictionary of one side (\<open>self.bids if side == "bids" else self.asks\<close>).\<close>

definition side_levels :: "side \<Rightarrow> order_book \<Rightarrow> book_side" where
  "side_levels sd ob = (if sd = Bids then bids ob else asks ob)"

text \<open>
  The message \<open>data\<close>: the entries listed under \<open>"bids"\<close> and under \<open>"asks"\<close>, an
  absent key being the empty list (\<open>data.get(side, [])\<close>).
\<close>

record update_data =
  data_bids :: "level list"
  data_asks :: "level list"

fun update_side :: "side \<Rightarrow> level list \<Rightarrow> order_book \<Rightarrow> order_book" where
  "update_side sd [] ob = ob"
| "update_side sd ((price, size_v) # rest) ob =
     update_side sd rest (apply_level sd price size_v ob)"

definition update :: "update_data \<Rightarrow> order_book \<Rightarrow> order_book" where
  "update d ob = update_side Asks (data_asks d) (update_side Bids (data_bids d) ob)"

text \<open>
  \<open>sorted(items, key=lambda x: x[0])\<close> is a stable sort on the price; with
  \<open>reverse=True\<close> Python sorts descending and still keeps equal keys in their original
  order, which is the reversal of the stable ascending sort of the reversed list.
\<close>

definition get_sorted_asks :: "order_book \<Rightarrow> level list" where
  "get_sorted_asks ob = sort_key fst (asks ob)"

definition get_sorted_bids :: "order_book \<Rightarrow> level list" where
  "get_sorted_bids ob = rev (sort_key fst (rev (bids ob)))"

text \<open>A run of single level updates, applied left to right.\<close>

fun apply_levels :: "(side \<times> real \<times> real) list \<Rightarrow> order_book \<Rightarrow> order_book" where
  "apply_levels [] ob = ob"
| "apply_levels ((sd, price, size_v) # rest) ob =
     apply_levels rest (apply_level sd price size_v ob)"

text \<open>
  The data model's invariant of one side: every price is a key once, and every size kept
  under a price is positive.
\<close>

definition side_ok :: "book_side \<Rightarrow> bool" where
  "side_ok al \<longleftrightarrow> distinct (map fst al) \<and> (\<forall>lvl \<in> set al. 0 < snd lvl)"

subsection \<open>TradeSimulator\<close>

definition TAKER_FEE_RATE :: real where
  "TAKER_FEE_RATE = 6 / 10000"

record trade_simulator =
  orderbook :: order_book
  taker_fee_rate :: real

record report =
  executed_quantity :: real
  average_price :: real
  total_cost :: real
  slippage :: real
  fee :: real
  remaining_quantity :: real

datatype py_error = IndexError | ZeroDivisionError

text \<open>Python's \<open>a / b\<close> on floats raises on a zero divisor.\<close>

definition truediv :: "real \<Rightarrow> real \<Rightarrow> py_error + real" where
  "truediv a b = (if b = 0 then Inl ZeroDivisionError else Inr (a / b))"

text \<open>\<open>xs[0]\<close> and \<open>xs[-1]\<close>: both raise on the empty list.\<close>

definition first_item :: "'a list \<Rightarrow> py_error + 'a" where
  "first_item xs = (if xs = [] then Inl IndexError else Inr (hd xs))"

definition last_item :: "'a list \<Rightarrow> py_error + 'a" where
  "last_item xs = (if xs = [] then Inl IndexError else Inr (last xs))"

text \<open>
  The \<open>for\<close> loop of \<open>_simulate_trade\<close> with its three running variables
  (\<open>remaining_qty\<close>, \<open>total_cost\<close>, \<open>executed_qty\<close>); the \<open>break\<close> ends the recursion.
\<close>

fun walk :: "level list \<Rightarrow> real \<Rightarrow> real \<Rightarrow> real \<Rightarrow> real \<times> real \<times> real" where
  "walk [] remaining_qty cost executed_qty = (remaining_qty, cost, executed_qty)"
| "walk ((price, size_v) # rest) remaining_qty cost executed_qty =
     (let available = size_v;
          trade_qty = min remaining_qty available;
          cost' = cost + trade_qty * price;
          remaining_qty' = remaining_qty - trade_qty;
          executed_qty' = executed_qty + trade_qty
      in if remaining_qty' \<le> 0 then (remaining_qty', cost', executed_qty')
         else walk rest remaining_qty' cost' executed_qty')"

text \<open>
  \<open>_simulate_trade\<close>. The method reads \<open>self.orderbook\<close> and \<open>self.taker_fee_rate\<close> and
  assigns to neither; the simulator after the call is returned beside the result.
\<close>

definition simulate_trade ::
  "trade_simulator \<Rightarrow> real \<Rightarrow> bool \<Rightarrow> (py_error + report) \<times> trade_simulator" where
  "simulate_trade sim quantity is_buy =
     (let book_side = (if is_buy then get_sorted_asks (orderbook sim)
                       else get_sorted_bids (orderbook sim));
          (remaining_qty, cost, executed_qty) = walk book_side quantity 0 0;
          avg_r = (if executed_qty = 0 then Inr 0 else truediv cost executed_qty)
      in case avg_r of
           Inl e \<Rightarrow> (Inl e, sim)
         | Inr avg_price \<Rightarrow>
             (let slip_r =
                (if executed_qty > 0
                 then (case (if is_buy then first_item book_side else last_item book_side) of
                         Inl e \<Rightarrow> Inl e
                       | Inr lvl \<Rightarrow> Inr (avg_price - fst lvl))
                 else Inr 0)
              in case slip_r of
                   Inl e \<Rightarrow> (Inl e, sim)
                 | Inr slip \<Rightarrow>
                     (Inr \<lparr>executed_quantity = executed_qty,
                           average_price = avg_price,
                           total_cost = cost,
                           slippage = slip,
                           fee = cost * taker_fee_rate sim,
                           remaining_quantity = remaining_qty\<rparr>, sim)))"

definition simulate_buy :: "trade_simulator \<Rightarrow> real \<Rightarrow> (py_error + report) \<times> trade_simulator" where
  "simulate_buy sim quantity = simulate_trade sim quantity True"

definition simulate_sell :: "trade_simulator \<Rightarrow> real \<Rightarrow> (py_error + report) \<times> trade_simulator" where
  "simulate_sell sim quantity = simulate_trade sim quantity False"

section \<open>Level updates\<close>

lemma set_level_twice: "set_level p z (set_level p z al) = set_level p z al"
  by (simp add: set_level_def delete_idem delete_notin_dom)

lemma update_mem: "(k, v) \<in> set (AList.update k v al)"
  by (induction al) auto

lemma set_level_member: "z \<noteq> 0 \<Longrightarrow> (p, z) \<in> set (set_level p z al)"
  by (simp add: set_level_def update_mem)

lemma set_level_stored: "z \<noteq> 0 \<Longrightarrow> map_of (set_level p z al) p = Some z"
  by (simp add: set_level_def update_conv')



text \<open>
  C7. Applying the same level update (same side, price, size) a second time changes
  nothing: the book after two applications is the book after one, from every book and for
  every price and size; and a size-0 update for a price that is not a key of its side
  returns the book as it was.
\<close>

theorem apply_level_idempotent:
  "apply_level sd p z (apply_level sd p z ob) = apply_level sd p z ob
   \<and> (p \<notin> fst ` set (side_levels sd ob) \<longrightarrow> apply_level sd p 0 ob = ob)"
  by (cases sd)
    (simp_all add: apply_level_def side_levels_def set_level_twice, simp_all add: set_level_def)

theorem apply_level_idempotent_witness:
  "apply_level Bids 100 2 (apply_level Bids 100 2 \<lparr>bids = [(99, 1)], asks = []\<rparr>)
     = apply_level Bids 100 2 \<lparr>bids = [(99, 1)], asks = []\<rparr>
   \<and> 100 \<notin> fst ` set (side_levels Bids \<lparr>bids = [(99, 1)], asks = []\<rparr>)
   \<and> apply_level Bids 100 0 \<lparr>bids = [(99, 1)], asks = []\<rparr> = \<lparr>bids = [(99, 1)], asks = []\<rparr>"
  using apply_level_idempotent [of Bids 100 2 "\<lparr>bids = [(99, 1)], asks = []\<rparr>"]
  by (simp add: side_levels_def)




text \<open>
  C9. A level update with a negative size is stored like any size other than 0: after
  it the price maps to that negative size in the chosen side, and the sorted view of that
  side contains the level with its negative size.
\<close>

theorem negative_size_is_stored:
  assumes "z < 0"
  shows "map_of (side_levels sd (apply_level sd p z ob)) p = Some z
       \<and> (p, z) \<in> set (case sd of Bids \<Rightarrow> get_sorted_bids (apply_level sd p z ob)
                                 | Asks \<Rightarrow> get_sorted_asks (apply_level sd p z ob))"
proof -
  from assms have nz: "z \<noteq> 0" by simp
  then show ?thesis
    by (cases sd)
      (simp_all add: side_levels_def apply_level_def get_sorted_bids_def get_sorted_asks_def
        set_level_stored set_level_member)
qed

theorem negative_size_is_stored_witness:
  "(- 3 :: real) < 0
   \<and> map_of (side_levels Bids (apply_level Bids 100 (- 3) \<lparr>bids = [(101, 1), (100, 2)], asks = []\<rparr>))
        100 = Some (- 3)
   \<and> get_sorted_bids (apply_level Bids 100 (- 3) \<lparr>bids = [(101, 1), (100, 2)], asks = []\<rparr>)
       = [(101, 1), (100, - 3)]"
  using negative_size_is_stored [of "- 3" Bids 100 "\<lparr>bids = [(101, 1), (100, 2)], asks = []\<rparr>"]
  by (simp add: apply_level_def set_level_def get_sorted_bids_def)

subsection \<open>The invariant of a side\<close>

lemma set_update_subset: "set (AList.update k v al) \<subseteq> insert (k, v) (set al)"
  by (induction al) auto

lemma set_delete_subset: "set (AList.delete k al) \<subseteq> set al"
  by (auto simp: AList.delete_eq)

lemma set_level_distinct: "distinct (map fst al) \<Longrightarrow> distinct (map fst (set_level p z al))"
  by (simp add: set_level_def distinct_update distinct_delete)

lemma set_level_positive:
  assumes "0 \<le> z" and "\<forall>lvl \<in> set al. 0 < snd lvl"
  shows "\<forall>lvl \<in> set (set_level p z al). 0 < snd lvl"
proof (cases "z = 0")
  case True
  with assms(2) set_delete_subset [of p al] show ?thesis
    by (auto simp: set_level_def)
next
  case False
  with assms(1) have "0 < z" by simp
  with assms(2) set_update_subset [of p z al] False show ?thesis
    by (auto simp: set_level_def)
qed

lemma set_level_ok: "0 \<le> z \<Longrightarrow> side_ok al \<Longrightarrow> side_ok (set_level p z al)"
  unfolding side_ok_def using set_level_distinct set_level_positive by blast

lemma apply_level_ok:
  assumes "0 \<le> z" "side_ok (bids ob)" "side_ok (asks ob)"
  shows "side_ok (bids (apply_level sd p z ob)) \<and> side_ok (asks (apply_level sd p z ob))"
  using assms by (cases sd) (simp_all add: apply_level_def set_level_ok)

lemma apply_levels_ok:
  assumes "\<forall>u \<in> set us. 0 \<le> snd (snd u)" "side_ok (bids ob)" "side_ok (asks ob)"
  shows "side_ok (bids (apply_levels us ob)) \<and> side_ok (asks (apply_levels us ob))"
  using assms
proof (induction us arbitrary: ob)
  case Nil
  then show ?case by simp
next
  case (Cons u us)
  obtain sd p z where u: "u = (sd, p, z)" by (cases u)
  from Cons.prems u have z: "0 \<le> z" by simp
  from apply_level_ok [OF z Cons.prems(2) Cons.prems(3)]
  have "side_ok (bids (apply_level sd p z ob))" "side_ok (asks (apply_level sd p z ob))"
    by simp_all
  with Cons.IH [of "apply_level sd p z ob"] Cons.prems(1) u show ?case by simp
qed

lemma asks_view_strict:
  "distinct (map fst al) \<Longrightarrow> sorted_wrt (<) (map fst (sort_key fst al))"
  by (simp add: strict_sorted_iff distinct_map) 

lemma bids_view_strict:
  assumes "distinct (map fst al)"
  shows "sorted_wrt (>) (map fst (rev (sort_key fst (rev al))))"
proof -
  from assms have "distinct (map fst (rev al))" by (simp add: distinct_map)
  then have "sorted_wrt (<) (map fst (sort_key fst (rev al)))" by (rule asks_view_strict)
  then show ?thesis by (simp add: sorted_wrt_map sorted_wrt_rev)
qed

text \<open>
  One call of \<open>update\<close> is the run of its level updates, the bids of the message
  first and its asks after them.
\<close>

lemma apply_levels_append:
  "apply_levels (us @ vs) ob = apply_levels vs (apply_levels us ob)"
  by (induction us arbitrary: ob) auto

lemma update_side_levels:
  "update_side sd ls ob = apply_levels (map (\<lambda>(p, z). (sd, p, z)) ls) ob"
  by (induction ls arbitrary: ob) auto

lemma update_as_levels:
  "update d ob =
     apply_levels (map (\<lambda>(p, z). (Bids, p, z)) (data_bids d)
                   @ map (\<lambda>(p, z). (Asks, p, z)) (data_asks d)) ob"
  by (simp add: update_def update_side_levels apply_levels_append)

section \<open>Sorted views\<close>

text \<open>
  C5. After any run of level updates from the empty book, each with price above 0 and
  size at least 0, both sorted views are well formed: no level has size 0 or less, no
  price occurs twice, bids are strictly descending and asks strictly ascending by price.
\<close>

theorem sorted_views_wellformed:
  assumes "\<forall>u \<in> set us. 0 < fst (snd u) \<and> 0 \<le> snd (snd u)"
  shows "(\<forall>lvl \<in> set (get_sorted_bids (apply_levels us init_book)). 0 < snd lvl)
       \<and> distinct (map fst (get_sorted_bids (apply_levels us init_book)))
       \<and> sorted_wrt (>) (map fst (get_sorted_bids (apply_levels us init_book)))
       \<and> (\<forall>lvl \<in> set (get_sorted_asks (apply_levels us init_book)). 0 < snd lvl)
       \<and> distinct (map fst (get_sorted_asks (apply_levels us init_book)))
       \<and> sorted_wrt (<) (map fst (get_sorted_asks (apply_levels us init_book)))"
proof -
  let ?ob = "apply_levels us init_book"
  from assms have nonneg: "\<forall>u \<in> set us. 0 \<le> snd (snd u)" by simp
  have "side_ok (bids init_book)" "side_ok (asks init_book)"
    by (simp_all add: init_book_def side_ok_def)
  with apply_levels_ok [OF nonneg] have ok: "side_ok (bids ?ob)" "side_ok (asks ?ob)"
    by simp_all
  from ok(1) have b1: "\<forall>lvl \<in> set (get_sorted_bids ?ob). 0 < snd lvl"
    by (simp add: get_sorted_bids_def side_ok_def)
  from ok(1) have b3: "sorted_wrt (>) (map fst (get_sorted_bids ?ob))"
    by (simp add: get_sorted_bids_def side_ok_def bids_view_strict)
  from ok(1) have b2: "distinct (map fst (get_sorted_bids ?ob))"
    by (simp add: get_sorted_bids_def side_ok_def distinct_map)
  from ok(2) have a1: "\<forall>lvl \<in> set (get_sorted_asks ?ob). 0 < snd lvl"
    by (simp add: get_sorted_asks_def side_ok_def)
  from ok(2) have a3: "sorted_wrt (<) (map fst (get_sorted_asks ?ob))"
    by (simp add: get_sorted_asks_def side_ok_def asks_view_strict)
  from a3 have a2: "distinct (map fst (get_sorted_asks ?ob))"
    by (simp add: strict_sorted_iff)
  from b1 b2 b3 a1 a2 a3 show ?thesis by blast
qed

theorem sorted_views_wellformed_witness:
  "list_all (\<lambda>u. (0::real) < fst (snd u) \<and> (0::real) \<le> snd (snd u))
     [(Bids, 100, 1), (Bids, 101, 2), (Asks, 103, 1), (Asks, 102, 4), (Bids, 100, 0),
      (Bids, 99, 3), (Asks, 102, 5)]
   \<and> get_sorted_bids (apply_levels [(Bids, 100, 1), (Bids, 101, 2), (Asks, 103, 1), (Asks, 102, 4),
        (Bids, 100, 0), (Bids, 99, 3), (Asks, 102, 5)] init_book) = [(101, 2), (99, 3)]
   \<and> get_sorted_asks (apply_levels [(Bids, 100, 1), (Bids, 101, 2), (Asks, 103, 1), (Asks, 102, 4),
        (Bids, 100, 0), (Bids, 99, 3), (Asks, 102, 5)] init_book) = [(102, 5), (103, 1)]
   \<and> sorted_wrt (>) (map fst (get_sorted_bids (apply_levels [(Bids, 100, 1), (Bids, 101, 2),
        (Asks, 103, 1), (Asks, 102, 4), (Bids, 100, 0), (Bids, 99, 3), (Asks, 102, 5)] init_book)))
   \<and> sorted_wrt (<) (map fst (get_sorted_asks (apply_levels [(Bids, 100, 1), (Bids, 101, 2),
        (Asks, 103, 1), (Asks, 102, 4), (Bids, 100, 0), (Bids, 99, 3), (Asks, 102, 5)] init_book)))"
  using sorted_views_wellformed [of "[(Bids, 100, 1), (Bids, 101, 2), (Asks, 103, 1), (Asks, 102, 4),
        (Bids, 100, 0), (Bids, 99, 3), (Asks, 102, 5)]"]
  by (simp add: init_book_def apply_level_def set_level_def get_sorted_bids_def get_sorted_asks_def)

section \<open>Simulated trades\<close>

lemma walk_executed_nonempty:
  "walk xs r c e = (r', c', e') \<Longrightarrow> e' \<noteq> e \<Longrightarrow> xs \<noteq> []"
  by (cases xs) auto

lemma simulate_trade_unfold:
  assumes "walk (if b then get_sorted_asks (orderbook sim) else get_sorted_bids (orderbook sim))
             q 0 0 = (r', c', e')"
  shows "simulate_trade sim q b =
     (Inr \<lparr>executed_quantity = e',
           average_price = (if e' = 0 then 0 else c' / e'),
           total_cost = c',
           slippage = (if 0 < e'
                       then c' / e' - fst (if b then hd (get_sorted_asks (orderbook sim))
                                            else last (get_sorted_bids (orderbook sim)))
                       else 0),
           fee = c' * taker_fee_rate sim,
           remaining_quantity = r'\<rparr>, sim)"
proof (cases "0 < e'")
  case True
  then have "e' \<noteq> 0" by simp
  with walk_executed_nonempty [OF assms]
  have ne: "(if b then get_sorted_asks (orderbook sim) else get_sorted_bids (orderbook sim)) \<noteq> []"
    by simp
  with assms True show ?thesis
    by (cases b) (simp_all add: simulate_trade_def truediv_def first_item_def last_item_def)
next
  case False
  with assms show ?thesis
    by (cases b) (simp_all add: simulate_trade_def truediv_def)
qed

lemma simulate_trade_returns: "\<exists>r. simulate_trade sim q b = (Inr r, sim)"
proof -
  obtain r' c' e' where
    "walk (if b then get_sorted_asks (orderbook sim) else get_sorted_bids (orderbook sim))
       q 0 0 = (r', c', e')"
    by (metis prod_cases3)
  from simulate_trade_unfold [OF this] show ?thesis by blast
qed

text \<open>
  C4. When the side a trade consumes is empty (asks for a buy, bids for a sell), the
  call returns, without an error, the report with executed quantity, average price, total
  cost, slippage and fee all 0 and the whole quantity remaining; this holds for every
  quantity, so for every quantity above 0.
\<close>

theorem simulate_empty_side:
  assumes "(if is_buy then asks (orderbook sim) else bids (orderbook sim)) = []"
  shows "simulate_trade sim q is_buy =
     (Inr \<lparr>executed_quantity = 0, average_price = 0, total_cost = 0, slippage = 0, fee = 0,
           remaining_quantity = q\<rparr>, sim)"
proof -
  from assms
  have "walk (if is_buy then get_sorted_asks (orderbook sim) else get_sorted_bids (orderbook sim))
          q 0 0 = (q, 0, 0)"
    by (cases is_buy) (simp_all add: get_sorted_asks_def get_sorted_bids_def)
  from simulate_trade_unfold [OF this] show ?thesis by simp
qed

theorem simulate_empty_side_witness:
  "(if True then asks (orderbook \<lparr>orderbook = \<lparr>bids = [(99, 1)], asks = []\<rparr>,
                                   taker_fee_rate = TAKER_FEE_RATE\<rparr>)
    else bids (orderbook \<lparr>orderbook = \<lparr>bids = [(99, 1)], asks = []\<rparr>,
                           taker_fee_rate = TAKER_FEE_RATE\<rparr>)) = []
   \<and> simulate_buy \<lparr>orderbook = \<lparr>bids = [(99, 1)], asks = []\<rparr>,
                    taker_fee_rate = TAKER_FEE_RATE\<rparr> 5 =
     (Inr \<lparr>executed_quantity = 0, average_price = 0, total_cost = 0, slippage = 0, fee = 0,
           remaining_quantity = 5\<rparr>,
      \<lparr>orderbook = \<lparr>bids = [(99, 1)], asks = []\<rparr>, taker_fee_rate = TAKER_FEE_RATE\<rparr>)"
  using simulate_empty_side [of True "\<lparr>orderbook = \<lparr>bids = [(99, 1)], asks = []\<rparr>,
                    taker_fee_rate = TAKER_FEE_RATE\<rparr>" 5]
  by (simp add: simulate_buy_def)

text \<open>
  C1. The specification takes the slippage of a sell against the first level of the
  sorted bid view, the best bid. The source subtracts \<open>book_side[-1][0]\<close> for a sell,
  the price of the last level of the descending view: with bids 100 (size 1) and 99
  (size 2) a sell of 2 reports the slippage 99.5 - 99 = 0.5, where the best bid gives
  99.5 - 100 = -0.5.
\<close>

theorem sell_slippage_against_last_bid:
  "simulate_sell \<lparr>orderbook = \<lparr>bids = [(100, 1), (99, 2)], asks = []\<rparr>,
                   taker_fee_rate = TAKER_FEE_RATE\<rparr> 2 =
     (Inr \<lparr>executed_quantity = 2, average_price = 199 / 2, total_cost = 199,
           slippage = 1 / 2, fee = 199 * TAKER_FEE_RATE, remaining_quantity = 0\<rparr>,
      \<lparr>orderbook = \<lparr>bids = [(100, 1), (99, 2)], asks = []\<rparr>,
       taker_fee_rate = TAKER_FEE_RATE\<rparr>)"
  by (simp add: simulate_sell_def simulate_trade_def get_sorted_bids_def truediv_def
      last_item_def Let_def)

text \<open>
  C2, where it fails as stated. A buy of the quantity -1 is answered with a report:
  executed quantity -1 at the price 100, total cost -100 and a negative fee.
\<close>

theorem nonpositive_quantity_counterexample:
  "simulate_buy \<lparr>orderbook = \<lparr>bids = [], asks = [(100, 1)]\<rparr>,
                  taker_fee_rate = TAKER_FEE_RATE\<rparr> (- 1) =
     (Inr \<lparr>executed_quantity = - 1, average_price = 100, total_cost = - 100,
           slippage = 0, fee = - 100 * TAKER_FEE_RATE, remaining_quantity = 0\<rparr>,
      \<lparr>orderbook = \<lparr>bids = [], asks = [(100, 1)]\<rparr>, taker_fee_rate = TAKER_FEE_RATE\<rparr>)"
  by (simp add: simulate_buy_def simulate_trade_def get_sorted_asks_def truediv_def
      first_item_def Let_def)

text \<open>
  C2, as the code has it. The source has no check of the quantity: for every direction
  and every quantity of 0 or less the call is not rejected, it returns a report as for
  any other quantity.
\<close>

theorem nonpositive_quantity_not_rejected:
  "q \<le> 0 \<Longrightarrow> \<exists>r. simulate_trade sim q is_buy = (Inr r, sim)"
  by (rule simulate_trade_returns)

theorem nonpositive_quantity_not_rejected_witness:
  "(0::real) \<le> 0 \<and> (\<exists>r. simulate_trade \<lparr>orderbook = \<lparr>bids = [(100, 1)], asks = []\<rparr>,
        taker_fee_rate = TAKER_FEE_RATE\<rparr> 0 False =
        (Inr r, \<lparr>orderbook = \<lparr>bids = [(100, 1)], asks = []\<rparr>, taker_fee_rate = TAKER_FEE_RATE\<rparr>))"
  using nonpositive_quantity_not_rejected [of 0 "\<lparr>orderbook = \<lparr>bids = [(100, 1)], asks = []\<rparr>,
        taker_fee_rate = TAKER_FEE_RATE\<rparr>" False]
  by simp

text \<open>
  C8. A simulated trade leaves the simulator, and with it both dictionaries of the order
  book, exactly as they were before the call; and two simulators with the same order book
  and the same fee rate give the same result for the same quantity and direction.
\<close>

theorem simulate_leaves_book:
  "snd (simulate_trade sim q is_buy) = sim
   \<and> bids (orderbook (snd (simulate_trade sim q is_buy))) = bids (orderbook sim)
   \<and> asks (orderbook (snd (simulate_trade sim q is_buy))) = asks (orderbook sim)
   \<and> (orderbook sim' = orderbook sim \<and> taker_fee_rate sim' = taker_fee_rate sim
        \<longrightarrow> fst (simulate_trade sim' q is_buy) = fst (simulate_trade sim q is_buy))"
proof -
  from simulate_trade_returns [of sim q is_buy]
  have "snd (simulate_trade sim q is_buy) = sim" by auto
  moreover have "fst (simulate_trade sim' q is_buy) = fst (simulate_trade sim q is_buy)"
    if "orderbook sim' = orderbook sim" "taker_fee_rate sim' = taker_fee_rate sim"
  proof -
    from that have "sim' = sim" by simp
    then show ?thesis by simp
  qed
  ultimately show ?thesis by simp
qed

theorem simulate_leaves_book_witness:
  "snd (simulate_trade \<lparr>orderbook = \<lparr>bids = [(99, 2)], asks = [(100, 1), (101, 2)]\<rparr>,
                          taker_fee_rate = TAKER_FEE_RATE\<rparr> (3 / 2) True)
     = \<lparr>orderbook = \<lparr>bids = [(99, 2)], asks = [(100, 1), (101, 2)]\<rparr>,
        taker_fee_rate = TAKER_FEE_RATE\<rparr>
   \<and> orderbook \<lparr>orderbook = \<lparr>bids = [(99, 2)], asks = [(100, 1), (101, 2)]\<rparr>,
                 taker_fee_rate = 6 / 10000\<rparr>
       = orderbook \<lparr>orderbook = \<lparr>bids = [(99, 2)], asks = [(100, 1), (101, 2)]\<rparr>,
                    taker_fee_rate = TAKER_FEE_RATE\<rparr>
   \<and> taker_fee_rate \<lparr>orderbook = \<lparr>bids = [(99, 2)], asks = [(100, 1), (101, 2)]\<rparr>,
                      taker_fee_rate = 6 / 10000\<rparr>
       = taker_fee_rate \<lparr>orderbook = \<lparr>bids = [(99, 2)], asks = [(100, 1), (101, 2)]\<rparr>,
                         taker_fee_rate = TAKER_FEE_RATE\<rparr>
   \<and> fst (simulate_trade \<lparr>orderbook = \<lparr>bids = [(99, 2)], asks = [(100, 1), (101, 2)]\<rparr>,
                            taker_fee_rate = 6 / 10000\<rparr> (3 / 2) True)
       = fst (simulate_trade \<lparr>orderbook = \<lparr>bids = [(99, 2)], asks = [(100, 1), (101, 2)]\<rparr>,
                               taker_fee_rate = TAKER_FEE_RATE\<rparr> (3 / 2) True)"
  using simulate_leaves_book [of "\<lparr>orderbook = \<lparr>bids = [(99, 2)], asks = [(100, 1), (101, 2)]\<rparr>,
                          taker_fee_rate = TAKER_FEE_RATE\<rparr>" "3 / 2" True
      "\<lparr>orderbook = \<lparr>bids = [(99, 2)], asks = [(100, 1), (101, 2)]\<rparr>,
                          taker_fee_rate = 6 / 10000\<rparr>"]
  by (simp add: TAKER_FEE_RATE_def)

end
